theory Spec2Isabelle
  imports Complex_Main "HOL-Library.AList"
begin

section \<open>Python values read from JSON\<close>

text \<open>
  A Python string is a list of Unicode code points; \<open>str\<close> gives the string of an
  ASCII literal of the program.
\<close>

type_synonym pystr = "nat list"

definition cp :: "char \<Rightarrow> nat" where
  "cp c = of_char c"

definition str :: "string \<Rightarrow> pystr" where
  "str s = map cp s"

text \<open>
  The monitor works on whatever \<^verbatim>\<open>json.loads\<close> returns: \<^verbatim>\<open>None\<close>, booleans,
  integers, floats, strings, lists and dicts with string keys. A dict is an association
  list in insertion order whose keys are distinct; a finite float is its exact rational
  value (NaN and the infinities, which are not JSON, are left out).
\<close>

datatype json =
    JNull
  | JBool bool
  | JInt int
  | JFloat rat
  | JStr pystr
  | JArr "json list"
  | JObj "(pystr \<times> json) list"

type_synonym py_dict = "(pystr \<times> json) list"

datatype py_error =
    AttributeError
  | TypeError
  | ValueError
  | JSONDecodeError
  | RequestException
  | FileNotFoundError
  | UnicodeEncodeError
  | OSError

text \<open>Sequencing of calls that may raise: the first exception ends the computation.\<close>

definition then_do :: "'e + 'a \<Rightarrow> ('a \<Rightarrow> 'e + 'b) \<Rightarrow> 'e + 'b" where
  "then_do m f = (case m of Inl e \<Rightarrow> Inl e | Inr x \<Rightarrow> f x)"

text \<open>A comprehension \<^verbatim>\<open>[f(x) for x in xs]\<close> whose body may raise.\<close>

fun map_err :: "('a \<Rightarrow> 'e + 'b) \<Rightarrow> 'a list \<Rightarrow> 'e + 'b list" where
  "map_err f [] = Inr []"
| "map_err f (x # xs) =
     (case f x of
        Inl e \<Rightarrow> Inl e
      | Inr y \<Rightarrow> (case map_err f xs of Inl e \<Rightarrow> Inl e | Inr ys \<Rightarrow> Inr (y # ys)))"

text \<open>Truth value of a Python object, as \<^verbatim>\<open>not x\<close> and \<^verbatim>\<open>x or y\<close> test it.\<close>

fun truthy :: "json \<Rightarrow> bool" where
  "truthy JNull = False"
| "truthy (JBool b) = b"
| "truthy (JInt i) = (i \<noteq> 0)"
| "truthy (JFloat r) = (r \<noteq> 0)"
| "truthy (JStr s) = (s \<noteq> [])"
| "truthy (JArr xs) = (xs \<noteq> [])"
| "truthy (JObj kvs) = (kvs \<noteq> [])"

definition py_or :: "json \<Rightarrow> json \<Rightarrow> json" where
  "py_or x y = (if truthy x then x else y)"

text \<open>\<^verbatim>\<open>x.get(k, default)\<close>: only a dict has the method.\<close>

definition dict_get :: "py_dict \<Rightarrow> pystr \<Rightarrow> json \<Rightarrow> json" where
  "dict_get kvs k dflt = (case map_of kvs k of Some v \<Rightarrow> v | None \<Rightarrow> dflt)"

definition py_get :: "json \<Rightarrow> pystr \<Rightarrow> json \<Rightarrow> py_error + json" where
  "py_get x k dflt =
     (case x of JObj kvs \<Rightarrow> Inr (dict_get kvs k dflt) | _ \<Rightarrow> Inl AttributeError)"

text \<open>
  \<^verbatim>\<open>for x in v\<close>: a list yields its elements, a dict its keys, a string its
  code points as strings of length one; anything else is not iterable.
\<close>

definition py_iter :: "json \<Rightarrow> py_error + json list" where
  "py_iter v =
     (case v of
        JArr xs \<Rightarrow> Inr xs
      | JObj kvs \<Rightarrow> Inr (map (\<lambda>kv. JStr (fst kv)) kvs)
      | JStr s \<Rightarrow> Inr (map (\<lambda>c. JStr [c]) s)
      | _ \<Rightarrow> Inl TypeError)"

text \<open>
  Python's \<^verbatim>\<open>==\<close> on these values: numbers compare by value across bool, int and
  float; lists elementwise; dicts by key set and values, whatever the order.
\<close>

fun num_val :: "json \<Rightarrow> rat option" where
  "num_val (JBool b) = Some (if b then 1 else 0)"
| "num_val (JInt i) = Some (of_int i)"
| "num_val (JFloat r) = Some r"
| "num_val _ = None"

fun py_eq :: "json \<Rightarrow> json \<Rightarrow> bool"
  and py_eq_list :: "json list \<Rightarrow> json list \<Rightarrow> bool"
  and py_eq_items :: "py_dict \<Rightarrow> py_dict \<Rightarrow> bool"
  and py_eq_lookup :: "json \<Rightarrow> py_dict \<Rightarrow> pystr \<Rightarrow> bool"
where
  "py_eq JNull b = (b = JNull)"
| "py_eq (JStr s) b = (case b of JStr t \<Rightarrow> s = t | _ \<Rightarrow> False)"
| "py_eq (JArr xs) b = (case b of JArr ys \<Rightarrow> py_eq_list xs ys | _ \<Rightarrow> False)"
| "py_eq (JObj kvs) b =
     (case b of JObj kws \<Rightarrow> length kvs = length kws \<and> py_eq_items kvs kws | _ \<Rightarrow> False)"
| "py_eq a b = (case num_val b of Some y \<Rightarrow> num_val a = Some y | None \<Rightarrow> False)"
| "py_eq_list [] ys = (ys = [])"
| "py_eq_list (x # xs) ys =
     (case ys of [] \<Rightarrow> False | y # ys' \<Rightarrow> py_eq x y \<and> py_eq_list xs ys')"
| "py_eq_items [] kws = True"
| "py_eq_items (kv # kvs) kws = (py_eq_lookup (snd kv) kws (fst kv) \<and> py_eq_items kvs kws)"
| "py_eq_lookup v [] k = False"
| "py_eq_lookup v (kw # kws) k = (if fst kw = k then py_eq v (snd kw) else py_eq_lookup v kws k)"

definition dict_eq :: "py_dict \<Rightarrow> py_dict \<Rightarrow> bool" where
  "dict_eq a b = py_eq (JObj a) (JObj b)"

section \<open>Calendar dates and \<^verbatim>\<open>strptime(s, "%d.%m.%Y")\<close>\<close>

datatype date = Date (year_of: nat) (month_of: nat) (day_of: nat)

text \<open>Dates compare as the tuples (year, month, day).\<close>

definition date_lt :: "date \<Rightarrow> date \<Rightarrow> bool" where
  "date_lt a b =
     (year_of a < year_of b \<or> (year_of a = year_of b \<and>
        (month_of a < month_of b \<or> (month_of a = month_of b \<and> day_of a < day_of b))))"

definition date_ge :: "date \<Rightarrow> date \<Rightarrow> bool" where
  "date_ge a b = (a = b \<or> date_lt b a)"

definition is_leap :: "nat \<Rightarrow> bool" where
  "is_leap y = (y mod 4 = 0 \<and> (y mod 100 \<noteq> 0 \<or> y mod 400 = 0))"

definition days_in_month :: "nat \<Rightarrow> nat \<Rightarrow> nat" where
  "days_in_month y m =
     (if m = 2 then (if is_leap y then 29 else 28)
      else if m = 4 \<or> m = 6 \<or> m = 9 \<or> m = 11 then 30
      else 31)"

text \<open>The constructor \<^verbatim>\<open>date(y, m, d)\<close> raises ValueError outside these bounds.\<close>

definition valid_date :: "nat \<Rightarrow> nat \<Rightarrow> nat \<Rightarrow> bool" where
  "valid_date y m d =
     (1 \<le> y \<and> y \<le> 9999 \<and> 1 \<le> m \<and> m \<le> 12 \<and> 1 \<le> d \<and> d \<le> days_in_month y m)"

text \<open>
  The decimal digits of Unicode (category Nd), which \<^verbatim>\<open>\d\<close> matches and
  \<^verbatim>\<open>int\<close> converts: every script's digits are ten consecutive code points from its
  zero. The zeros are those of Unicode 14.0, the database of Python 3.11.
\<close>

definition decimal_zeros :: "nat list" where
  "decimal_zeros =
     [48, 1632, 1776, 1984, 2406, 2534, 2662, 2790, 2918, 3046, 3174, 3302, 3430, 3558,
      3664, 3792, 3872, 4160, 4240, 6112, 6160, 6470, 6608, 6784, 6800, 6992, 7088, 7232,
      7248, 42528, 43216, 43264, 43472, 43504, 43600, 44016, 65296, 66720, 68912, 69734,
      69872, 69942, 70096, 70384, 70736, 70864, 71248, 71360, 71472, 71904, 72016, 72784,
      73040, 73120, 92768, 92864, 93008, 120782, 120792, 120802, 120812, 120822, 123200,
      123632, 125264, 130032]"

definition unicode_digit :: "nat \<Rightarrow> nat option" where
  "unicode_digit c =
     (case filter (\<lambda>z. z \<le> c \<and> c < z + 10) decimal_zeros of
        [] \<Rightarrow> None
      | z # zs \<Rightarrow> Some (c - z))"

text \<open>The digits of a character class such as \<^verbatim>\<open>[0-9]\<close>: the ASCII ones.\<close>

definition ascii_digit :: "nat \<Rightarrow> nat option" where
  "ascii_digit c = (if cp CHR ''0'' \<le> c \<and> c \<le> cp CHR ''9'' then Some (c - cp CHR ''0'') else None)"

text \<open>
  The directive \<^verbatim>\<open>%d\<close> is the regular expression
  \<^verbatim>\<open>3[0-1]|[1-2]\d|0[1-9]|[1-9]| [1-9]\<close>, \<^verbatim>\<open>%m\<close> is \<^verbatim>\<open>1[0-2]|0[1-9]|[1-9]\<close> and
  \<^verbatim>\<open>%Y\<close> is \<^verbatim>\<open>\d\d\d\d\<close>. None of them matches a dot and the format puts a literal
  dot after the first two, so the text matches exactly when its dot-separated fields are
  three and each field matches its directive as a whole.
\<close>

definition parse_d :: "pystr \<Rightarrow> nat option" where
  "parse_d s =
     (case s of
        [a] \<Rightarrow> (case ascii_digit a of Some x \<Rightarrow> (if 1 \<le> x then Some x else None) | None \<Rightarrow> None)
      | [a, b] \<Rightarrow>
          if a = cp CHR ''3'' then
            (case ascii_digit b of Some y \<Rightarrow> (if y \<le> 1 then Some (30 + y) else None) | None \<Rightarrow> None)
          else if a = cp CHR ''1'' \<or> a = cp CHR ''2'' then
            (case unicode_digit b of Some y \<Rightarrow> Some (10 * (a - cp CHR ''0'') + y) | None \<Rightarrow> None)
          else if a = cp CHR ''0'' \<or> a = cp CHR '' '' then
            (case ascii_digit b of Some y \<Rightarrow> (if 1 \<le> y then Some y else None) | None \<Rightarrow> None)
          else None
      | _ \<Rightarrow> None)"

definition parse_m :: "pystr \<Rightarrow> nat option" where
  "parse_m s =
     (case s of
        [a] \<Rightarrow> (case ascii_digit a of Some x \<Rightarrow> (if 1 \<le> x then Some x else None) | None \<Rightarrow> None)
      | [a, b] \<Rightarrow>
          (case ascii_digit b of
             None \<Rightarrow> None
           | Some y \<Rightarrow>
               if a = cp CHR ''1'' then (if y \<le> 2 then Some (10 + y) else None)
               else if a = cp CHR ''0'' then (if 1 \<le> y then Some y else None)
               else None)
      | _ \<Rightarrow> None)"

definition parse_Y :: "pystr \<Rightarrow> nat option" where
  "parse_Y s =
     (case s of
        [a, b, c, d] \<Rightarrow>
          (case (unicode_digit a, unicode_digit b, unicode_digit c, unicode_digit d) of
             (Some w, Some x, Some y, Some z) \<Rightarrow> Some (1000 * w + 100 * x + 10 * y + z)
           | _ \<Rightarrow> None)
      | _ \<Rightarrow> None)"

fun split_on :: "nat \<Rightarrow> pystr \<Rightarrow> pystr list" where
  "split_on c [] = [[]]"
| "split_on c (x # xs) =
     (if x = c then [] # split_on c xs
      else (case split_on c xs of [] \<Rightarrow> [[x]] | f # fs \<Rightarrow> (x # f) # fs))"

definition parse_date :: "pystr \<Rightarrow> date option" where
  "parse_date s =
     (case split_on (cp CHR ''.'') s of
        [ds, ms, ys] \<Rightarrow>
          (case (parse_d ds, parse_m ms, parse_Y ys) of
             (Some d, Some m, Some y) \<Rightarrow> (if valid_date y m d then Some (Date y m d) else None)
           | _ \<Rightarrow> None)
      | _ \<Rightarrow> None)"

text \<open>
  \<^verbatim>\<open>datetime.strptime(v, "%d.%m.%Y").date()\<close>: TypeError when the argument is not a
  string, ValueError when the text does not match or is no calendar date.
\<close>

definition strptime :: "json \<Rightarrow> py_error + date" where
  "strptime v =
     (case v of
        JStr s \<Rightarrow> (case parse_date s of Some d \<Rightarrow> Inr d | None \<Rightarrow> Inl ValueError)
      | _ \<Rightarrow> Inl TypeError)"

section \<open>The environment: network, clock, cache files, messages\<close>

text \<open>
  The reply to one \<^verbatim>\<open>requests.get\<close> is either an exception or a response, of which
  the program reads the status code, the \<^verbatim>\<open>Content-Type\<close> header and the result of
  \<^verbatim>\<open>r.json()\<close>, which raises when the body is not JSON.
\<close>

record http_response =
  status_code :: int
  content_type :: "pystr option"
  body_json :: "py_error + json"

type_synonym network = "nat \<Rightarrow> py_error + http_response"

text \<open>
  The wall clock: \<open>clock k\<close> is the date that the \<open>k\<close>-th call of
  \<^verbatim>\<open>datetime.now()\<close> within one \<^verbatim>\<open>check_and_alert\<close> returns. The calls are
  independent, so the dates may differ when the call runs across midnight.
\<close>

type_synonym clock = "nat \<Rightarrow> date"

text \<open>
  A cache file \<^verbatim>\<open>cache/<queue>.json\<close> is absent, holds a JSON document, or exists
  and cannot be read back (\<^verbatim>\<open>json.load\<close> raises).
\<close>

datatype cache_file = Stored json | Corrupt

type_synonym cache = "pystr \<Rightarrow> cache_file option"

text \<open>
  What writing a document to a queue's cache file does is the environment's. The write
  succeeds; or \<^verbatim>\<open>os.makedirs\<close> or \<^verbatim>\<open>open\<close> raises, as for a queue id with a
  slash, whose file lies in a directory that is not there, and the files stay as they
  were; or \<^verbatim>\<open>json.dump\<close> raises after \<^verbatim>\<open>open\<close> has truncated the file, as for a
  string with a lone surrogate, and the file is left unreadable.
\<close>

datatype write_result = Written | OpenFails py_error | DumpFails py_error

type_synonym disk = "pystr \<Rightarrow> json \<Rightarrow> write_result"

text \<open>
  The two Telegram messages, by their content rather than their text: the cancellation
  carries the queue, its display name and today's date; the change message carries one
  part per day of the current schedule (date, approval time, outage intervals).
\<close>

datatype outages = NoOutages | Outages "(json \<times> json) list"

datatype part = Part json json outages

datatype notification =
    ScheduleCancelled pystr "pystr option" date
  | ScheduleChanged pystr "pystr option" "part list"

datatype event =
    Request nat
  | Sleep nat
  | Load pystr
  | Save pystr json
  | Telegram notification

datatype outcome = GaveUp | Ignored | Cancelled | Changed | Unchanged | Failed py_error

record run =
  outcome :: outcome
  cache_after :: cache
  events :: "event list"

section \<open>\<^verbatim>\<open>fetch_schedule\<close>\<close>

fun starts_with :: "pystr \<Rightarrow> pystr \<Rightarrow> bool" where
  "starts_with s [] = True"
| "starts_with [] (p # ps) = False"
| "starts_with (c # s) (p # ps) = (c = p \<and> starts_with s ps)"

text \<open>\<^verbatim>\<open>p in s\<close> on strings.\<close>

fun py_in :: "pystr \<Rightarrow> pystr \<Rightarrow> bool" where
  "py_in p [] = (p = [])"
| "py_in p (c # s) = (starts_with (c # s) p \<or> py_in p s)"

text \<open>\<^verbatim>\<open>r.headers.get(name, default)\<close>, on the header's value if it is there.\<close>

definition header_get :: "pystr option \<Rightarrow> pystr \<Rightarrow> pystr" where
  "header_get h dflt = (case h of Some t \<Rightarrow> t | None \<Rightarrow> dflt)"

definition fetch_schedule :: "py_error + http_response \<Rightarrow> py_error + json" where
  "fetch_schedule reply =
     (case reply of
        Inl e \<Rightarrow> Inr JNull
      | Inr r \<Rightarrow>
          if status_code r = 403 \<or> status_code r = 503 then Inr JNull
          else if \<not> py_in (str ''application/json'') (header_get (content_type r) [])
          then Inr JNull
          else (case body_json r of Inl e \<Rightarrow> Inr JNull | Inr v \<Rightarrow> Inr v))"

section \<open>\<^verbatim>\<open>load_last\<close> and \<^verbatim>\<open>save_current\<close>\<close>

definition load_last :: "cache \<Rightarrow> pystr \<Rightarrow> py_error + json" where
  "load_last files queue =
     (case files queue of
        None \<Rightarrow> Inr JNull
      | Some Corrupt \<Rightarrow> Inl JSONDecodeError
      | Some (Stored v) \<Rightarrow> Inr v)"

text \<open>The files after the call, and the exception it raised, if any.\<close>

definition save_current :: "disk \<Rightarrow> cache \<Rightarrow> pystr \<Rightarrow> json \<Rightarrow> cache \<times> py_error option" where
  "save_current io files queue data =
     (case io queue data of
        Written \<Rightarrow> (files(queue \<mapsto> Stored data), None)
      | OpenFails e \<Rightarrow> (files, Some e)
      | DumpFails e \<Rightarrow> (files(queue \<mapsto> Corrupt), Some e))"

section \<open>\<^verbatim>\<open>extract_relevant\<close>\<close>

text \<open>
  The function reads the clock once, at line 112; \<open>today\<close> is the date it gets.
\<close>

definition simplify_interval :: "json \<Rightarrow> py_error + json" where
  "simplify_interval x =
     then_do (py_get x (str ''shutdownHours'') JNull) (\<lambda>h.
     then_do (py_get x (str ''from'') JNull) (\<lambda>f.
     then_do (py_get x (str ''to'') JNull) (\<lambda>t.
     then_do (py_get x (str ''status'') JNull) (\<lambda>s.
       Inr (JObj [(str ''shutdownHours'', h), (str ''from'', f), (str ''to'', t),
                  (str ''status'', s)])))))"

text \<open>Lines 124 to 133: the queue's outage list of one day, each interval projected.\<close>

definition day_simplified :: "pystr \<Rightarrow> json \<Rightarrow> py_error + json" where
  "day_simplified queue day =
     then_do (py_get day (str ''queues'') (JObj [])) (\<lambda>qs.
     then_do (py_get qs queue (JArr [])) (\<lambda>qdata.
     then_do (py_iter qdata) (\<lambda>xs.
     then_do (map_err simplify_interval xs) (\<lambda>simplified.
       Inr (JArr simplified)))))"

text \<open>The text of a Python string; used on a value that \<open>strptime\<close> has accepted.\<close>

fun str_of :: "json \<Rightarrow> pystr" where
  "str_of (JStr s) = s"
| "str_of _ = []"

text \<open>The loop over the days, with the dict \<open>result\<close> built so far.\<close>

fun extract_days :: "date \<Rightarrow> pystr \<Rightarrow> json list \<Rightarrow> py_dict \<Rightarrow> py_error + py_dict" where
  "extract_days today queue [] result = Inr result"
| "extract_days today queue (day # days) result =
     (case py_get day (str ''eventDate'') JNull of
        Inl e \<Rightarrow> Inl e
      | Inr date_str \<Rightarrow>
          (case strptime date_str of
             Inl e \<Rightarrow> extract_days today queue days result
           | Inr date_obj \<Rightarrow>
               if date_lt date_obj today then extract_days today queue days result
               else (case day_simplified queue day of
                       Inl e \<Rightarrow> Inl e
                     | Inr simplified \<Rightarrow>
                         extract_days today queue days
                           (AList.update (str_of date_str) simplified result))))"

definition extract_relevant :: "date \<Rightarrow> json \<Rightarrow> pystr \<Rightarrow> py_error + py_dict" where
  "extract_relevant today schedule queue =
     then_do (py_iter (py_or schedule (JArr []))) (\<lambda>days. extract_days today queue days [])"

section \<open>\<^verbatim>\<open>check_and_alert\<close>\<close>

text \<open>Lines 146 to 152: at most one request per element of \<^verbatim>\<open>range(3)\<close>.\<close>

fun retry_loop :: "network \<Rightarrow> nat list \<Rightarrow> (py_error + json) \<times> event list" where
  "retry_loop net [] = (Inr JNull, [])"
| "retry_loop net (attempt # rest) =
     (case fetch_schedule (net attempt) of
        Inl e \<Rightarrow> (Inl e, [Request attempt])
      | Inr current \<Rightarrow>
          if current \<noteq> JNull then (Inr current, [Request attempt])
          else (case retry_loop net rest of
                  (r, evs) \<Rightarrow> (r, Request attempt # Sleep 2 # evs)))"

text \<open>
  Lines 164 to 167: the dict comprehension that drops past days from \<open>last_relevant\<close>.
  It reads the clock once per item, from the \<open>k\<close>-th read on.
\<close>

fun drop_past :: "clock \<Rightarrow> nat \<Rightarrow> py_dict \<Rightarrow> py_error + py_dict" where
  "drop_past now k [] = Inr []"
| "drop_past now k (kv # items) =
     (case strptime (JStr (fst kv)) of
        Inl e \<Rightarrow> Inl e
      | Inr d \<Rightarrow>
          (case drop_past now (Suc k) items of
             Inl e \<Rightarrow> Inl e
           | Inr rest \<Rightarrow> Inr (if date_ge d (now k) then kv # rest else rest)))"

text \<open>
  Lines 173 to 176: \<^verbatim>\<open>all(... for d in last_dates if d)\<close> stops at the first date
  that is not past, and raises at a non-empty date that does not parse. It reads the clock
  once per date it compares.
\<close>

fun all_past :: "clock \<Rightarrow> nat \<Rightarrow> json list \<Rightarrow> py_error + bool" where
  "all_past now k [] = Inr True"
| "all_past now k (d # ds) =
     (if truthy d then
        (case strptime d of
           Inl e \<Rightarrow> Inl e
         | Inr date_obj \<Rightarrow>
             if date_lt date_obj (now k) then all_past now (Suc k) ds else Inr False)
      else all_past now k ds)"

text \<open>Lines 202 to 214: one part of the change message.\<close>

definition from_to :: "json \<Rightarrow> py_error + json \<times> json" where
  "from_to x =
     then_do (py_get x (str ''from'') (JStr (str ''?''))) (\<lambda>f.
     then_do (py_get x (str ''to'') (JStr (str ''?''))) (\<lambda>t. Inr (f, t)))"

definition message_part :: "pystr \<Rightarrow> json \<Rightarrow> py_error + part" where
  "message_part queue day =
     then_do (py_get day (str ''eventDate'') (JStr (str ''?''))) (\<lambda>date.
     then_do (py_get day (str ''scheduleApprovedSince'') (JStr (str ''?''))) (\<lambda>updated.
     then_do (py_get day (str ''queues'') (JObj [])) (\<lambda>qs.
     then_do (py_get qs queue (JArr [])) (\<lambda>qdata.
       if truthy qdata then
         then_do (py_iter qdata) (\<lambda>xs.
         then_do (map_err from_to xs) (\<lambda>lines. Inr (Part date updated (Outages lines))))
       else Inr (Part date updated NoOutages)))))"

text \<open>
  Lines 158 to 221, up to the first effect after the load: the body either raises or
  decides the outcome, the message to send, if any, and whether the cache is written. The
  clock is read by the two normalizations (reads 0 and 1), by the comprehension (from
  read 2 on), at line 170 and then by \<^verbatim>\<open>all(...)\<close>.
\<close>

definition classify_body ::
  "clock \<Rightarrow> (pystr \<Rightarrow> pystr option) \<Rightarrow> pystr \<Rightarrow> json \<Rightarrow> cache
     \<Rightarrow> py_error + outcome \<times> notification option \<times> bool" where
  "classify_body now queue_names queue current files =
     then_do (load_last files queue) (\<lambda>loaded.
     let last = py_or loaded (JArr []) in
     then_do (extract_relevant (now 0) current queue) (\<lambda>current_relevant.
     then_do (extract_relevant (now 1) last queue) (\<lambda>extracted.
     then_do (drop_past now 2 extracted) (\<lambda>last_relevant.
     let today = now (2 + length extracted) in
     then_do (py_iter (py_or last (JArr []))) (\<lambda>last_days.
     then_do (map_err (\<lambda>d. py_get d (str ''eventDate'') JNull) last_days) (\<lambda>last_dates.
     then_do (all_past now (3 + length extracted) last_dates) (\<lambda>last_only_past.
       if \<not> truthy current \<and> last_only_past then Inr (Ignored, None, True)
       else if \<not> truthy current \<and> \<not> last_only_past then
         Inr (Cancelled, Some (ScheduleCancelled queue (queue_names queue) today), True)
       else if \<not> dict_eq current_relevant last_relevant then
         then_do (py_iter current) (\<lambda>days.
         then_do (map_err (message_part queue) days) (\<lambda>parts.
           Inr (Changed, Some (ScheduleChanged queue (queue_names queue) parts), True)))
       else Inr (Unchanged, None, False))))))))"

text \<open>
  The effects, and the \<^verbatim>\<open>except Exception\<close> around everything: the message is sent
  before the cache is written (lines 194 and 195, 222 and 223), \<^verbatim>\<open>send_telegram\<close>
  never raises, and an exception of the body or of the write is printed, which ends the
  call.
\<close>

definition classify ::
  "clock \<Rightarrow> (pystr \<Rightarrow> pystr option) \<Rightarrow> disk \<Rightarrow> pystr \<Rightarrow> json \<Rightarrow> cache \<Rightarrow> run" where
  "classify now queue_names io queue current files =
     (case classify_body now queue_names queue current files of
        Inl e \<Rightarrow> \<lparr>outcome = Failed e, cache_after = files, events = [Load queue]\<rparr>
      | Inr (oc, message, write) \<Rightarrow>
          (let sent = (case message of None \<Rightarrow> [] | Some m \<Rightarrow> [Telegram m]) in
           if write then
             (case save_current io files queue current of
                (files', None) \<Rightarrow>
                  \<lparr>outcome = oc, cache_after = files',
                   events = Load queue # sent @ [Save queue current]\<rparr>
              | (files', Some e) \<Rightarrow>
                  \<lparr>outcome = Failed e, cache_after = files', events = Load queue # sent\<rparr>)
           else \<lparr>outcome = oc, cache_after = files, events = Load queue # sent\<rparr>))"

definition check_and_alert ::
  "clock \<Rightarrow> (pystr \<Rightarrow> pystr option) \<Rightarrow> network \<Rightarrow> disk \<Rightarrow> pystr \<Rightarrow> cache \<Rightarrow> run" where
  "check_and_alert now queue_names net io queue files =
     (case retry_loop net [0, 1, 2] of
        (Inl e, evs) \<Rightarrow> \<lparr>outcome = Failed e, cache_after = files, events = evs\<rparr>
      | (Inr current, evs) \<Rightarrow>
          if current = JNull then \<lparr>outcome = GaveUp, cache_after = files, events = evs\<rparr>
          else (let r = classify now queue_names io queue current files
                in r\<lparr>events := evs @ events r\<rparr>))"

section \<open>Predicates on inputs used by the properties\<close>

text \<open>
  A reply with a status other than 403 and 503, a JSON content type and the body
  \<^verbatim>\<open>null\<close>.
\<close>

definition json_null_reply :: "http_response \<Rightarrow> bool" where
  "json_null_reply r =
     (status_code r \<noteq> 403 \<and> status_code r \<noteq> 503 \<and>
      py_in (str ''application/json'') (header_get (content_type r) []) \<and>
      body_json r = Inr JNull)"

text \<open>
  A day of the cached schedule whose \<^verbatim>\<open>eventDate\<close> is missing or empty, or parses to
  a date before \<open>today\<close>; and a cache entry all of whose days are such (an absent file
  and an empty schedule among them).
\<close>

definition past_or_undated :: "date \<Rightarrow> json \<Rightarrow> bool" where
  "past_or_undated today entry =
     (case py_get entry (str ''eventDate'') JNull of
        Inl e \<Rightarrow> False
      | Inr d \<Rightarrow>
          \<not> truthy d \<or>
          (case strptime d of Inr date_obj \<Rightarrow> date_lt date_obj today | Inl e \<Rightarrow> False))"

definition only_past :: "date \<Rightarrow> cache_file option \<Rightarrow> bool" where
  "only_past today file =
     (case file of
        None \<Rightarrow> True
      | Some Corrupt \<Rightarrow> False
      | Some (Stored prev) \<Rightarrow>
          (case py_or prev (JArr []) of
             JArr days \<Rightarrow> list_all (past_or_undated today) days
           | _ \<Rightarrow> False))"

text \<open>A day whose \<^verbatim>\<open>eventDate\<close> parses to \<open>today\<close> or a later date.\<close>

definition upcoming :: "date \<Rightarrow> json \<Rightarrow> bool" where
  "upcoming today entry =
     (case py_get entry (str ''eventDate'') JNull of
        Inl e \<Rightarrow> False
      | Inr d \<Rightarrow> (case strptime d of Inr date_obj \<Rightarrow> date_ge date_obj today | Inl e \<Rightarrow> False))"

text \<open>
  The days of the cached schedule as \<^verbatim>\<open>load_last(queue) or []\<close> gives them, when
  the file is absent or holds a list (or an empty value).
\<close>

definition cached_days :: "cache_file option \<Rightarrow> json list option" where
  "cached_days file =
     (case file of
        None \<Rightarrow> Some []
      | Some Corrupt \<Rightarrow> None
      | Some (Stored prev) \<Rightarrow>
          (case py_or prev (JArr []) of JArr days \<Rightarrow> Some days | _ \<Rightarrow> None))"


text \<open>The projection of one outage interval to the four compared fields.\<close>

definition project :: "py_dict \<Rightarrow> json" where
  "project x =
     JObj [(str ''shutdownHours'', dict_get x (str ''shutdownHours'') JNull),
           (str ''from'', dict_get x (str ''from'') JNull),
           (str ''to'', dict_get x (str ''to'') JNull),
           (str ''status'', dict_get x (str ''status'') JNull)]"

text \<open>
  A day of the shape the upstream API documents: a dict whose \<^verbatim>\<open>queues\<close>, if there,
  is a dict, in which the queue's entry, if there, is a list of dicts.
\<close>

definition is_object :: "json \<Rightarrow> bool" where
  "is_object v = (case v of JObj kvs \<Rightarrow> True | _ \<Rightarrow> False)"

definition well_formed_day :: "pystr \<Rightarrow> json \<Rightarrow> bool" where
  "well_formed_day queue entry =
     (case entry of
        JObj kvs \<Rightarrow>
          (case dict_get kvs (str ''queues'') (JObj []) of
             JObj qs \<Rightarrow>
               (case dict_get qs queue (JArr []) of
                  JArr xs \<Rightarrow> list_all is_object xs
                | _ \<Rightarrow> False)
           | _ \<Rightarrow> False)
      | _ \<Rightarrow> False)"

text \<open>A day that is a dict and whose \<^verbatim>\<open>eventDate\<close> does not parse.\<close>

definition unparsed :: "json \<Rightarrow> bool" where
  "unparsed entry =
     (case py_get entry (str ''eventDate'') JNull of
        Inl e \<Rightarrow> False
      | Inr d \<Rightarrow> (case strptime d of Inl e \<Rightarrow> True | Inr date_obj \<Rightarrow> False))"

text \<open>A key of a normalized schedule that parses to \<open>today\<close> or a later date.\<close>

definition current_key :: "date \<Rightarrow> pystr \<Rightarrow> bool" where
  "current_key today k =
     (case parse_date k of Some d \<Rightarrow> date_ge d today | None \<Rightarrow> False)"

text \<open>What a run did: whether it sent a message, and what it wrote to the cache.\<close>

definition notified :: "run \<Rightarrow> bool" where
  "notified r = list_ex (\<lambda>e. case e of Telegram n \<Rightarrow> True | _ \<Rightarrow> False) (events r)"

definition saved :: "run \<Rightarrow> (pystr \<times> json) list" where
  "saved r = concat (map (\<lambda>e. case e of Save q v \<Rightarrow> [(q, v)] | _ \<Rightarrow> []) (events r))"

subsection \<open>Example schedules\<close>

definition outage :: "string \<Rightarrow> string \<Rightarrow> json" where
  "outage f t = JObj [(str ''from'', JStr (str f)), (str ''to'', JStr (str t))]"

definition day_entry :: "string \<Rightarrow> json list \<Rightarrow> json" where
  "day_entry d xs =
     JObj [(str ''eventDate'', JStr (str d)), (str ''queues'', JObj [(str ''Q'', JArr xs)])]"

text \<open>
  A disk whose cache directory has no subdirectory, so that the file of a queue id with a
  slash cannot be opened; and a clock that passes midnight of 11 January 2025 at its
  \<open>n\<close>-th read.
\<close>

definition flat_disk :: disk where
  "flat_disk q d = (if cp CHR ''/'' \<in> set q then OpenFails FileNotFoundError else Written)"

definition midnight :: "nat \<Rightarrow> clock" where
  "midnight n k = (if k < n then Date 2025 1 11 else Date 2025 1 12)"

section \<open>Basic facts\<close>

lemmas date_defs = strptime_def parse_date_def parse_d_def parse_m_def parse_Y_def
  ascii_digit_def unicode_digit_def decimal_zeros_def valid_date_def days_in_month_def
  is_leap_def cp_def str_def

lemmas run_defs = classify_def classify_body_def load_last_def save_current_def
  extract_relevant_def py_or_def py_iter_def py_get_def dict_get_def day_simplified_def
  simplify_interval_def then_do_def message_part_def from_to_def dict_eq_def
  outage_def day_entry_def date_lt_def date_ge_def

lemma cp_eq_iff [simp]: "cp a = cp b \<longleftrightarrow> a = b"
  by (simp add: cp_def)

lemma str_eq_iff [simp]: "str a = str b \<longleftrightarrow> a = b"
  by (simp add: str_def cp_def inj_on_def)

lemma str_eq_Nil [simp]: "str a = [] \<longleftrightarrow> a = []"
  by (simp add: str_def)

lemma cp_in_str [simp]: "cp c \<in> set (str s) \<longleftrightarrow> c \<in> set s"
  by (auto simp: str_def)

lemmas input_defs = only_past_def past_or_undated_def upcoming_def well_formed_day_def
  is_object_def cached_days_def unparsed_def current_key_def project_def flat_disk_def
  midnight_def

lemma then_do_Inr [simp]: "then_do (Inr x) f = f x"
  by (simp add: then_do_def)

lemma then_do_Inl [simp]: "then_do (Inl e) f = Inl e"
  by (simp add: then_do_def)

lemma then_do_eq_Inr: "then_do m f = Inr y \<longleftrightarrow> (\<exists>x. m = Inr x \<and> f x = Inr y)"
  by (cases m) simp_all

lemma date_ge_iff: "date_ge a b \<longleftrightarrow> \<not> date_lt a b"
  by (cases a; cases b) (auto simp: date_ge_def date_lt_def)

lemma py_or_JArr [simp]: "py_or (JArr days) (JArr []) = JArr days"
  by (simp add: py_or_def)

lemma py_iter_JArr [simp]: "py_iter (JArr days) = Inr days"
  by (simp add: py_iter_def)

lemma extract_relevant_JArr:
  "extract_relevant today (JArr days) queue = extract_days today queue days []"
  by (simp add: extract_relevant_def)

lemma parse_date_Nil [simp]: "parse_date [] = None"
  by (simp add: parse_date_def)

lemma parse_date_examples:
  "parse_date (str ''12.01.2025'') = Some (Date 2025 1 12)"
  "parse_date (str ''1.1.2025'') = Some (Date 2025 1 1)"
  "parse_date (str '' 1.01.2025'') = Some (Date 2025 1 1)"
  "parse_date (str ''12.01.'' @ [1634, 1632, 1634, 1637]) = Some (Date 2025 1 12)"
  "parse_date (str ''1'' @ [1634] @ str ''.01.2025'') = Some (Date 2025 1 12)"
  "parse_date ([1635, 1632] @ str ''.01.2025'') = None"
  "parse_date (str ''29.02.2025'') = None"
  "parse_date (str ''12.01.20255'') = None"
  by (simp_all add: date_defs)

text \<open>The dates of the example schedules.\<close>

lemma example_dates:
  "parse_date (str ''10.01.2025'') = Some (Date 2025 1 10)"
  "parse_date (str ''11.01.2025'') = Some (Date 2025 1 11)"
  "parse_date (str ''12.01.2025'') = Some (Date 2025 1 12)"
  "parse_date (str ''13.01.2025'') = Some (Date 2025 1 13)"
  "parse_date (str ''2025-01-12'') = None"
  by (simp_all add: date_defs)

lemma strptime_Inr: "strptime v = Inr d \<longleftrightarrow> (\<exists>s. v = JStr s \<and> parse_date s = Some d)"
  by (auto simp: strptime_def split: json.splits option.splits)



section \<open>The fetcher and the retry loop\<close>



text \<open>
  C5. The loop makes at most three requests, sleeping two seconds after each one that
  yields \<^verbatim>\<open>None\<close>; when all three do, the call gives up: its only effects are the three
  requests and the sleeps, so the cache is neither read nor written and nothing is sent.
\<close>

theorem retry_then_skip:
  "snd (retry_loop net [0, 1, 2]) \<in> set
     [[Request 0],
      [Request 0, Sleep 2, Request 1],
      [Request 0, Sleep 2, Request 1, Sleep 2, Request 2],
      [Request 0, Sleep 2, Request 1, Sleep 2, Request 2, Sleep 2]] \<and>
   (fetch_schedule (net 0) = Inr JNull \<and> fetch_schedule (net 1) = Inr JNull \<and>
    fetch_schedule (net 2) = Inr JNull \<longrightarrow>
    check_and_alert now queue_names net io queue files =
      \<lparr>outcome = GaveUp, cache_after = files,
       events = [Request 0, Sleep 2, Request 1, Sleep 2, Request 2, Sleep 2]\<rparr>)"
  by (simp add: check_and_alert_def split: sum.splits prod.splits)

theorem retry_then_skip_witness:
  "check_and_alert (\<lambda>k. Date 2025 1 11) Map.empty
     (\<lambda>k. if k = 1 then Inl RequestException
          else Inr \<lparr>status_code = 403, content_type = None, body_json = Inl JSONDecodeError\<rparr>)
     (\<lambda>q d. Written) (str ''Q'') (Map.empty(str ''Q'' \<mapsto> Stored (JArr []))) =
   \<lparr>outcome = GaveUp, cache_after = Map.empty(str ''Q'' \<mapsto> Stored (JArr [])),
    events = [Request 0, Sleep 2, Request 1, Sleep 2, Request 2, Sleep 2]\<rparr>"
  by (rule retry_then_skip [THEN conjunct2, rule_format]) (simp add: fetch_schedule_def)

text \<open>
  C10. A reply with a JSON content type whose body is \<^verbatim>\<open>null\<close> gives the same result
  of \<^verbatim>\<open>fetch_schedule\<close> as a failed request, and three such replies make the call give
  up with the cache untouched and nothing sent: the cached schedule is not classified
  against an empty one.
\<close>

theorem null_body_is_unavailable:
  assumes "net 0 = Inr r0" "net 1 = Inr r1" "net 2 = Inr r2"
    and "json_null_reply r0" "json_null_reply r1" "json_null_reply r2"
  shows "fetch_schedule (Inr r0) = fetch_schedule (Inl RequestException) \<and>
     check_and_alert now queue_names net io queue files =
       \<lparr>outcome = GaveUp, cache_after = files,
        events = [Request 0, Sleep 2, Request 1, Sleep 2, Request 2, Sleep 2]\<rparr>"
  using assms by (simp add: check_and_alert_def fetch_schedule_def json_null_reply_def)

theorem null_body_is_unavailable_witness:
  "fetch_schedule (Inr \<lparr>status_code = 200, content_type = Some (str ''application/json''),
       body_json = Inr JNull\<rparr>) = fetch_schedule (Inl RequestException) \<and>
   check_and_alert (\<lambda>k. Date 2025 1 9) Map.empty
     (\<lambda>k. Inr \<lparr>status_code = 200, content_type = Some (str ''application/json''),
                body_json = Inr JNull\<rparr>)
     (\<lambda>q d. Written) (str ''Q'')
     (Map.empty(str ''Q'' \<mapsto> Stored (JArr [day_entry ''10.01.2025'' []]))) =
   \<lparr>outcome = GaveUp,
    cache_after = Map.empty(str ''Q'' \<mapsto> Stored (JArr [day_entry ''10.01.2025'' []])),
    events = [Request 0, Sleep 2, Request 1, Sleep 2, Request 2, Sleep 2]\<rparr>"
  using null_body_is_unavailable
    [where ?r0.0 = "\<lparr>status_code = 200, content_type = Some (str ''application/json''),
                body_json = Inr JNull\<rparr>"
      and ?r1.0 = "\<lparr>status_code = 200, content_type = Some (str ''application/json''),
                body_json = Inr JNull\<rparr>"
      and ?r2.0 = "\<lparr>status_code = 200, content_type = Some (str ''application/json''),
                body_json = Inr JNull\<rparr>"
      and net = "\<lambda>k. Inr \<lparr>status_code = 200, content_type = Some (str ''application/json''),
                body_json = Inr JNull\<rparr>"]
  by (simp add: json_null_reply_def header_get_def str_def)

section \<open>The normalizer\<close>

lemma update_keys_all:
  "list_all P (map fst al) \<Longrightarrow> P k \<Longrightarrow> list_all P (map fst (AList.update k v al))"
  by (induction al) auto

lemma extract_days_keys:
  "extract_days today queue days acc = Inr m \<Longrightarrow>
   list_all (current_key today) (map fst acc) \<Longrightarrow>
   list_all (current_key today) (map fst m)"
proof (induction days arbitrary: acc)
  case Nil
  then show ?case by simp
next
  case (Cons d ds)
  from Cons.prems(1) obtain x where x: "py_get d (str ''eventDate'') JNull = Inr x"
    by (auto split: sum.splits)
  show ?case
  proof (cases "strptime x")
    case (Inl e)
    with Cons x show ?thesis by simp
  next
    case (Inr dt)
    then obtain s where s: "x = JStr s" "parse_date s = Some dt"
      by (auto simp: strptime_Inr)
    show ?thesis
    proof (cases "date_lt dt today")
      case True
      with Cons x Inr show ?thesis by simp
    next
      case False
      with Cons.prems(1) x Inr obtain v where
        v: "extract_days today queue ds (AList.update s v acc) = Inr m"
        by (auto simp: s split: sum.splits)
      have "current_key today s"
        using False s by (simp add: current_key_def date_ge_iff)
      with Cons.prems(2) have "list_all (current_key today) (map fst (AList.update s v acc))"
        by (simp add: update_keys_all)
      from Cons.IH [OF v this] show ?thesis .
    qed
  qed
qed

lemma extract_relevant_keys:
  assumes "extract_relevant today schedule queue = Inr m"
  shows "list_all (current_key today) (map fst m)"
proof -
  from assms obtain days where "extract_days today queue days [] = Inr m"
    by (auto simp: extract_relevant_def then_do_eq_Inr)
  from extract_days_keys [OF this] show ?thesis by simp
qed

lemma extract_days_append:
  "extract_days today queue (xs @ ys) acc =
   then_do (extract_days today queue xs acc) (\<lambda>acc'. extract_days today queue ys acc')"
  by (induction xs arbitrary: acc) (auto split: sum.splits)

lemma extract_days_unparsed:
  "unparsed entry \<Longrightarrow>
   extract_days today queue (entry # rest) acc = extract_days today queue rest acc"
  by (auto simp: unparsed_def split: sum.splits)

lemma extract_drop_unparsed:
  "unparsed entry \<Longrightarrow>
   extract_relevant today (JArr (pre @ entry # post)) queue =
   extract_relevant today (JArr (pre @ post)) queue"
  by (simp add: extract_relevant_JArr extract_days_append extract_days_unparsed
      del: extract_days.simps)

lemma simplify_interval_object: "simplify_interval (JObj x) = Inr (project x)"
  by (simp add: simplify_interval_def py_get_def project_def)

lemma map_err_objects: "map_err simplify_interval (map JObj xs) = Inr (map project xs)"
  by (induction xs) (simp_all add: simplify_interval_object)

lemma map_err_is_object:
  "list_all is_object xs \<Longrightarrow> \<exists>ys. map_err simplify_interval xs = Inr ys"
  by (induction xs) (auto simp: is_object_def simplify_interval_object split: json.splits)

lemma well_formed_simplified:
  "well_formed_day queue entry \<Longrightarrow> \<exists>v. day_simplified queue entry = Inr v"
  using map_err_is_object
  by (fastforce simp: well_formed_day_def day_simplified_def py_get_def split: json.splits)

lemma well_formed_total:
  "list_all (well_formed_day queue) days \<Longrightarrow> \<exists>m. extract_days today queue days acc = Inr m"
proof (induction days arbitrary: acc)
  case Nil
  then show ?case by simp
next
  case (Cons d ds)
  then have wf: "well_formed_day queue d" and rest: "list_all (well_formed_day queue) ds"
    by simp_all
  from wf obtain kvs where "d = JObj kvs"
    by (auto simp: well_formed_day_def split: json.splits)
  then obtain x where x: "py_get d (str ''eventDate'') JNull = Inr x"
    by (simp add: py_get_def)
  from well_formed_simplified [OF wf] obtain v where v: "day_simplified queue d = Inr v" ..
  show ?case
    using Cons.IH [OF rest] by (simp add: x v split: sum.splits)
qed

lemma extract_days_other_key:
  "extract_days today queue days acc = Inr m \<Longrightarrow>
   \<forall>e \<in> set days. py_get e (str ''eventDate'') JNull \<noteq> Inr (JStr s) \<Longrightarrow>
   map_of m s = map_of acc s"
proof (induction days arbitrary: acc)
  case Nil
  then show ?case by simp
next
  case (Cons d ds)
  from Cons.prems(2) have d: "py_get d (str ''eventDate'') JNull \<noteq> Inr (JStr s)"
    and ds: "\<forall>e \<in> set ds. py_get e (str ''eventDate'') JNull \<noteq> Inr (JStr s)"
    by simp_all
  from Cons.prems(1) obtain x where x: "py_get d (str ''eventDate'') JNull = Inr x"
    by (auto split: sum.splits)
  show ?case
  proof (cases "strptime x")
    case (Inl e)
    with Cons.prems(1) x Cons.IH [OF _ ds] show ?thesis by simp
  next
    case (Inr dt)
    then obtain t where t: "x = JStr t" by (auto simp: strptime_Inr)
    with d x have neq: "t \<noteq> s" by auto
    show ?thesis
    proof (cases "date_lt dt today")
      case True
      with Cons.prems(1) x Inr Cons.IH [OF _ ds] show ?thesis by simp
    next
      case False
      with Cons.prems(1) x Inr obtain v where
        v: "extract_days today queue ds (AList.update t v acc) = Inr m"
        by (auto simp: t split: sum.splits)
      from Cons.IH [OF v ds] neq show ?thesis
        by (simp add: update_conv')
    qed
  qed
qed

lemma extract_days_last_wins:
  assumes run: "extract_days today queue (pre @ entry # post) acc = Inr m"
    and dated: "py_get entry (str ''eventDate'') JNull = Inr (JStr s)"
    and cur: "current_key today s"
    and later: "\<forall>e \<in> set post. py_get e (str ''eventDate'') JNull \<noteq> Inr (JStr s)"
  shows "\<exists>v. day_simplified queue entry = Inr v \<and> map_of m s = Some v"
proof -
  from run obtain acc1 where "extract_days today queue (entry # post) acc1 = Inr m"
    by (auto simp: extract_days_append then_do_eq_Inr)
  moreover from cur obtain dt where dt: "strptime (JStr s) = Inr dt" "\<not> date_lt dt today"
    by (auto simp: current_key_def strptime_def date_ge_iff split: option.splits)
  ultimately obtain v where v: "day_simplified queue entry = Inr v"
    and rest: "extract_days today queue post (AList.update s v acc1) = Inr m"
    using dated by (auto split: sum.splits)
  from extract_days_other_key [OF rest later] have "map_of m s = Some v"
    by (simp add: update_conv')
  with v show ?thesis by blast
qed

lemma extract_days_distinct:
  "extract_days today queue days acc = Inr m \<Longrightarrow> distinct (map fst acc) \<Longrightarrow>
   distinct (map fst m)"
proof (induction days arbitrary: acc)
  case Nil
  then show ?case by simp
next
  case (Cons d ds)
  from Cons.prems(1) obtain x where x: "py_get d (str ''eventDate'') JNull = Inr x"
    by (auto split: sum.splits)
  show ?case
  proof (cases "strptime x")
    case (Inl e)
    with Cons x show ?thesis by simp
  next
    case (Inr dt)
    show ?thesis
    proof (cases "date_lt dt today")
      case True
      with Cons x Inr show ?thesis by simp
    next
      case False
      with Cons.prems(1) x Inr obtain v where
        v: "extract_days today queue ds (AList.update (str_of x) v acc) = Inr m"
        by (auto split: sum.splits)
      from Cons.prems(2) have "distinct (map fst (AList.update (str_of x) v acc))"
        by (rule distinct_update)
      from Cons.IH [OF v this] show ?thesis .
    qed
  qed
qed

lemma day_simplified_typed:
  assumes "py_get entry (str ''queues'') (JObj []) = Inr (JObj qs)"
  shows "(map_of qs queue = None \<longrightarrow> day_simplified queue entry = Inr (JArr [])) \<and>
     (\<forall>xs. map_of qs queue = Some (JArr (map JObj xs)) \<longrightarrow>
        day_simplified queue entry = Inr (JArr (map project xs)))"
  using assms
  by (simp add: day_simplified_def py_get_def dict_get_def map_err_objects)

text \<open>A date written with the digits of another script is a date like any other.\<close>

lemma unicode_date_kept:
  "extract_relevant (Date 2025 1 11)
     (JArr [JObj [(str ''eventDate'', JStr (str ''12.01.'' @ [1634, 1632, 1634, 1637]))]])
     (str ''Q'') =
   Inr [(str ''12.01.'' @ [1634, 1632, 1634, 1637], JArr [])]"
  by (simp add: extract_relevant_def py_or_def py_iter_def py_get_def dict_get_def
      day_simplified_def then_do_def date_defs date_lt_def)

lemma distinct_filter_key:
  "distinct (map fst m) \<Longrightarrow> map_of m s = Some v \<Longrightarrow> filter (\<lambda>kv. fst kv = s) m = [(s, v)]"
proof (induction m)
  case Nil
  then show ?case by simp
next
  case (Cons kv m)
  show ?case
  proof (cases "fst kv = s")
    case True
    with Cons.prems have "kv = (s, v)" by (cases kv) simp
    moreover have "filter (\<lambda>kv. fst kv = s) m = []"
    proof -
      from True Cons.prems(1) have "s \<notin> fst ` set m" by simp
      then have "\<forall>kv \<in> set m. fst kv \<noteq> s" by blast
      then show ?thesis by (simp add: filter_empty_conv)
    qed
    ultimately show ?thesis by simp
  next
    case False
    with Cons show ?thesis by (cases kv) auto
  qed
qed

text \<open>
  C4, as amended. Normalizing a list of days succeeds when the days are well formed. A day
  that is a dict whose \<^verbatim>\<open>eventDate\<close> does not parse is dropped silently: the result
  is that of the schedule without it. A result has no key that fails to parse or lies
  before today. For every day that survives and is the last one with its date pystr, the
  result maps the date pystr to the queue's interval list of that day, each interval
  projected to the four fields, and to the empty list when the queue is missing from the
  day's \<^verbatim>\<open>queues\<close>.
\<close>

theorem extract_relevant_normalizes:
  "(list_all (well_formed_day queue) days \<longrightarrow>
      (\<exists>m. extract_relevant today (JArr days) queue = Inr m)) \<and>
   (\<forall>pre entry post. days = pre @ entry # post \<and> unparsed entry \<longrightarrow>
      extract_relevant today (JArr days) queue =
      extract_relevant today (JArr (pre @ post)) queue) \<and>
   (\<forall>m. extract_relevant today (JArr days) queue = Inr m \<longrightarrow>
      (\<forall>k \<in> set (map fst m). \<exists>d. parse_date k = Some d \<and> \<not> date_lt d today) \<and>
      (\<forall>pre entry post s qs.
         days = pre @ entry # post \<and>
         py_get entry (str ''eventDate'') JNull = Inr (JStr s) \<and> current_key today s \<and>
         (\<forall>e \<in> set post. py_get e (str ''eventDate'') JNull \<noteq> Inr (JStr s)) \<and>
         py_get entry (str ''queues'') (JObj []) = Inr (JObj qs) \<longrightarrow>
           (map_of qs queue = None \<longrightarrow> map_of m s = Some (JArr [])) \<and>
           (\<forall>xs. map_of qs queue = Some (JArr (map JObj xs)) \<longrightarrow>
              map_of m s = Some (JArr (map project xs)))))"
proof (intro conjI allI impI)
  assume "list_all (well_formed_day queue) days"
  then show "\<exists>m. extract_relevant today (JArr days) queue = Inr m"
    by (simp add: extract_relevant_JArr well_formed_total)
next
  fix pre entry post
  assume "days = pre @ entry # post \<and> unparsed entry"
  then show "extract_relevant today (JArr days) queue =
      extract_relevant today (JArr (pre @ post)) queue"
    by (simp add: extract_drop_unparsed)
next
  fix m
  assume "extract_relevant today (JArr days) queue = Inr m"
  from extract_relevant_keys [OF this]
  show "\<forall>k \<in> set (map fst m). \<exists>d. parse_date k = Some d \<and> \<not> date_lt d today"
    by (auto simp: list_all_iff current_key_def date_ge_iff split: option.splits)
next
  fix m pre entry post s qs
  assume run: "extract_relevant today (JArr days) queue = Inr m"
    and hyps: "days = pre @ entry # post \<and>
         py_get entry (str ''eventDate'') JNull = Inr (JStr s) \<and> current_key today s \<and>
         (\<forall>e \<in> set post. py_get e (str ''eventDate'') JNull \<noteq> Inr (JStr s)) \<and>
         py_get entry (str ''queues'') (JObj []) = Inr (JObj qs)"
  from run hyps have "extract_days today queue (pre @ entry # post) [] = Inr m"
    by (simp add: extract_relevant_JArr)
  from extract_days_last_wins [OF this] hyps
  obtain v where v: "day_simplified queue entry = Inr v" "map_of m s = Some v"
    by blast
  from hyps have qs: "py_get entry (str ''queues'') (JObj []) = Inr (JObj qs)" by simp
  {
    assume "map_of qs queue = None"
    with day_simplified_typed [OF qs, of queue] v
    show "map_of m s = Some (JArr [])" by simp
  }
  {
    fix xs
    assume "map_of qs queue = Some (JArr (map JObj xs))"
    with day_simplified_typed [OF qs, of queue] v
    show "map_of m s = Some (JArr (map project xs))" by simp
  }
qed

theorem extract_relevant_normalizes_witness:
  "list_all (well_formed_day (str ''Q''))
     [day_entry ''10.01.2025'' [outage ''08:00'' ''09:00''],
      day_entry ''2025-01-12'' [],
      day_entry ''12.01.2025'' [outage ''10:00'' ''14:00''],
      JObj [(str ''eventDate'', JStr (str ''13.01.2025'')), (str ''queues'', JObj [])]] \<and>
   unparsed (day_entry ''2025-01-12'' []) \<and>
   extract_relevant (Date 2025 1 11)
     (JArr [day_entry ''10.01.2025'' [outage ''08:00'' ''09:00''],
            day_entry ''2025-01-12'' [],
            day_entry ''12.01.2025'' [outage ''10:00'' ''14:00''],
            JObj [(str ''eventDate'', JStr (str ''13.01.2025'')), (str ''queues'', JObj [])]]) (str ''Q'') =
   extract_relevant (Date 2025 1 11)
     (JArr [day_entry ''10.01.2025'' [outage ''08:00'' ''09:00''],
            day_entry ''12.01.2025'' [outage ''10:00'' ''14:00''],
            JObj [(str ''eventDate'', JStr (str ''13.01.2025'')), (str ''queues'', JObj [])]]) (str ''Q'') \<and>
   extract_relevant (Date 2025 1 11)
     (JArr [day_entry ''10.01.2025'' [outage ''08:00'' ''09:00''],
            day_entry ''2025-01-12'' [],
            day_entry ''12.01.2025'' [outage ''10:00'' ''14:00''],
            JObj [(str ''eventDate'', JStr (str ''13.01.2025'')), (str ''queues'', JObj [])]]) (str ''Q'') =
   Inr [((str ''12.01.2025''),
         JArr (map project [[(str ''from'', JStr (str ''10:00'')), (str ''to'', JStr (str ''14:00''))]])),
        (str ''13.01.2025'', JArr [])]"
  using extract_relevant_normalizes [of "(str ''Q'')"
      "[day_entry ''10.01.2025'' [outage ''08:00'' ''09:00''],
        day_entry ''2025-01-12'' [],
        day_entry ''12.01.2025'' [outage ''10:00'' ''14:00''],
        JObj [(str ''eventDate'', JStr (str ''13.01.2025'')), (str ''queues'', JObj [])]]"
      "Date 2025 1 11"]
  by (simp add: well_formed_day_def is_object_def unparsed_def project_def run_defs strptime_def example_dates)

text \<open>
  The claim as stated fails for a surviving day that is followed by another one with the
  same date pystr: the result holds the later day's intervals, not its own.
\<close>

theorem extract_relevant_counterexample:
  "extract_relevant (Date 2025 1 11)
     (JArr [day_entry ''12.01.2025'' [outage ''10:00'' ''14:00''],
            day_entry ''12.01.2025'' [outage ''16:00'' ''20:00'']]) (str ''Q'') =
     Inr [((str ''12.01.2025''),
           JArr [project [(str ''from'', JStr (str ''16:00'')), (str ''to'', JStr (str ''20:00''))]])] \<and>
   py_get (day_entry ''12.01.2025'' [outage ''10:00'' ''14:00'']) (str ''eventDate'') JNull =
     Inr (JStr (str ''12.01.2025'')) \<and>
   strptime (JStr (str ''12.01.2025'')) = Inr (Date 2025 1 12) \<and>
   \<not> date_lt (Date 2025 1 12) (Date 2025 1 11) \<and>
   day_simplified (str ''Q'') (day_entry ''12.01.2025'' [outage ''10:00'' ''14:00'']) =
     Inr (JArr [project [(str ''from'', JStr (str ''10:00'')), (str ''to'', JStr (str ''14:00''))]]) \<and>
   map_of [((str ''12.01.2025''),
           JArr [project [(str ''from'', JStr (str ''16:00'')), (str ''to'', JStr (str ''20:00''))]])]
       (str ''12.01.2025'') \<noteq>
     Some (JArr [project [(str ''from'', JStr (str ''10:00'')), (str ''to'', JStr (str ''14:00''))]])"
  by (simp add: project_def run_defs strptime_def example_dates)

text \<open>
  C9. When two days of a schedule carry the same date pystr, today or later, and no
  later day carries it, a result of normalization maps the date pystr to the intervals
  of the second one, and holds no other item under that key.
\<close>

theorem duplicate_date_last_wins:
  assumes run: "extract_relevant today (JArr (pre @ e1 # mid @ e2 # post)) queue = Inr m"
    and first: "py_get e1 (str ''eventDate'') JNull = Inr (JStr s)"
    and second: "py_get e2 (str ''eventDate'') JNull = Inr (JStr s)"
    and cur: "current_key today s"
    and later: "\<forall>e \<in> set post. py_get e (str ''eventDate'') JNull \<noteq> Inr (JStr s)"
  shows "\<exists>v. day_simplified queue e2 = Inr v \<and> map_of m s = Some v \<and>
     filter (\<lambda>kv. fst kv = s) m = [(s, v)]"
proof -
  from run have days: "extract_days today queue ((pre @ e1 # mid) @ e2 # post) [] = Inr m"
    by (simp add: extract_relevant_JArr)
  from extract_days_last_wins [OF days second cur later]
  obtain v where v: "day_simplified queue e2 = Inr v" "map_of m s = Some v"
    by blast
  from extract_days_distinct [OF days] have "distinct (map fst m)" by simp
  from distinct_filter_key [OF this v(2)] v show ?thesis by blast
qed

theorem duplicate_date_last_wins_witness:
  "\<exists>v. day_simplified (str ''Q'') (day_entry ''12.01.2025'' [outage ''16:00'' ''20:00'']) = Inr v \<and>
     map_of [((str ''12.01.2025''),
           JArr [project [(str ''from'', JStr (str ''16:00'')), (str ''to'', JStr (str ''20:00''))]])]
       (str ''12.01.2025'') = Some v \<and>
     filter (\<lambda>kv. fst kv = (str ''12.01.2025''))
       [((str ''12.01.2025''),
           JArr [project [(str ''from'', JStr (str ''16:00'')), (str ''to'', JStr (str ''20:00''))]])] =
       [(str ''12.01.2025'', v)]"
  by (rule duplicate_date_last_wins [of "Date 2025 1 11" "[]"
        "day_entry ''12.01.2025'' [outage ''10:00'' ''14:00'']" "[]" _ "[]" "(str ''Q'')"])
    (simp_all add: current_key_def project_def run_defs strptime_def example_dates)

section \<open>An empty current schedule\<close>





















section \<open>A non-empty current schedule\<close>




section \<open>What the classification depends on\<close>

lemma then_do_rel:
  "(\<And>x. rel_sum (=) P (f x) (g x)) \<Longrightarrow> rel_sum (=) P (then_do m f) (then_do m g)"
  by (cases m) simp_all

lemma classify_body_rel:
  assumes "load_last files queue = Inr l" "load_last files' queue = Inr l'"
    and "py_or l (JArr []) = py_or l' (JArr [])"
  shows "rel_sum (=)
     (\<lambda>a b. fst a = fst b \<and> (fst (snd a) = None \<longleftrightarrow> fst (snd b) = None) \<and>
        snd (snd a) = snd (snd b))
     (classify_body now names queue current files)
     (classify_body now names' queue current files')"
  unfolding classify_body_def using assms
  by (simp add: Let_def) (auto intro!: then_do_rel)

lemma classify_body_cache:
  assumes "load_last files queue = Inr l" "load_last files' queue = Inr l'"
    and "py_or l (JArr []) = py_or l' (JArr [])"
  shows "classify_body now names queue current files =
     classify_body now names queue current files'"
  unfolding classify_body_def using assms by (simp add: Let_def)

text \<open>
  C8, as amended. The outcome, the decision to send a message and what is written to the
  cache are the same in any two runs with the same queue, current schedule and cache file
  of the queue in which every read of the clock returns the same date and the write does
  the same, whatever the display names and the other cache files are.
\<close>

theorem classifier_deterministic:
  assumes same_file: "files queue = files' queue"
    and same_write: "io queue current = io' queue current"
  shows "outcome (classify now names io queue current files) =
         outcome (classify now names' io' queue current files') \<and>
     notified (classify now names io queue current files) =
         notified (classify now names' io' queue current files') \<and>
     saved (classify now names io queue current files) =
         saved (classify now names' io' queue current files')"
proof (cases "load_last files queue")
  case (Inl e)
  moreover from Inl same_file have "load_last files' queue = Inl e"
    by (simp add: load_last_def)
  ultimately show ?thesis
    by (simp add: classify_def classify_body_def notified_def saved_def)
next
  case (Inr l)
  moreover from Inr same_file have "load_last files' queue = Inr l"
    by (simp add: load_last_def)
  ultimately have "rel_sum (=)
     (\<lambda>a b. fst a = fst b \<and> (fst (snd a) = None \<longleftrightarrow> fst (snd b) = None) \<and>
        snd (snd a) = snd (snd b))
     (classify_body now names queue current files)
     (classify_body now names' queue current files')"
    by (rule classify_body_rel) simp
  then show ?thesis
    by (cases rule: rel_sum.cases)
      (auto simp: classify_def notified_def saved_def save_current_def same_write Let_def
        split: prod.splits option.splits write_result.splits)
qed

theorem classifier_deterministic_witness:
  "outcome (classify (midnight 3) Map.empty flat_disk (str ''Q'')
       (JArr [day_entry ''12.01.2025'' [outage ''10:00'' ''15:00'']])
       (Map.empty(str ''Q'' \<mapsto> Stored (JArr [])))) =
   outcome (classify (midnight 3) (Map.empty(str ''Q'' \<mapsto> str ''Centre'')) (\<lambda>q d. Written)
       (str ''Q'') (JArr [day_entry ''12.01.2025'' [outage ''10:00'' ''15:00'']])
       (Map.empty(str ''Q'' \<mapsto> Stored (JArr []), str ''R'' \<mapsto> Corrupt))) \<and>
   notified (classify (midnight 3) Map.empty flat_disk (str ''Q'')
       (JArr [day_entry ''12.01.2025'' [outage ''10:00'' ''15:00'']])
       (Map.empty(str ''Q'' \<mapsto> Stored (JArr [])))) =
   notified (classify (midnight 3) (Map.empty(str ''Q'' \<mapsto> str ''Centre'')) (\<lambda>q d. Written)
       (str ''Q'') (JArr [day_entry ''12.01.2025'' [outage ''10:00'' ''15:00'']])
       (Map.empty(str ''Q'' \<mapsto> Stored (JArr []), str ''R'' \<mapsto> Corrupt))) \<and>
   saved (classify (midnight 3) Map.empty flat_disk (str ''Q'')
       (JArr [day_entry ''12.01.2025'' [outage ''10:00'' ''15:00'']])
       (Map.empty(str ''Q'' \<mapsto> Stored (JArr [])))) =
   saved (classify (midnight 3) (Map.empty(str ''Q'' \<mapsto> str ''Centre'')) (\<lambda>q d. Written)
       (str ''Q'') (JArr [day_entry ''12.01.2025'' [outage ''10:00'' ''15:00'']])
       (Map.empty(str ''Q'' \<mapsto> Stored (JArr []), str ''R'' \<mapsto> Corrupt)))"
  by (rule classifier_deterministic) (simp_all add: flat_disk_def)

text \<open>
  The claim as stated fails: two runs on the same schedules that start on the same date
  differ when midnight passes during one of them.
\<close>

theorem classifier_counterexample:
  "midnight 3 0 = Date 2025 1 11 \<and>
   outcome (classify (\<lambda>k. Date 2025 1 11) Map.empty flat_disk (str ''Q'') (JArr [])
     (Map.empty(str ''Q'' \<mapsto> Stored (JArr [day_entry ''11.01.2025'' []])))) = Cancelled \<and>
   notified (classify (\<lambda>k. Date 2025 1 11) Map.empty flat_disk (str ''Q'') (JArr [])
     (Map.empty(str ''Q'' \<mapsto> Stored (JArr [day_entry ''11.01.2025'' []])))) \<and>
   outcome (classify (midnight 3) Map.empty flat_disk (str ''Q'') (JArr [])
     (Map.empty(str ''Q'' \<mapsto> Stored (JArr [day_entry ''11.01.2025'' []])))) = Ignored \<and>
   \<not> notified (classify (midnight 3) Map.empty flat_disk (str ''Q'') (JArr [])
     (Map.empty(str ''Q'' \<mapsto> Stored (JArr [day_entry ''11.01.2025'' []]))))"
  by (simp add: input_defs run_defs notified_def strptime_def example_dates)

text \<open>
  C7, as amended. A queue with no cache file loads as \<^verbatim>\<open>None\<close> and is classified as
  one whose cached schedule is empty. A cache file that cannot be read back makes
  \<^verbatim>\<open>load_last\<close> raise: the call ends with the error logged, nothing sent and the
  cache left as it was.
\<close>

theorem cache_absent_or_unreadable:
  "(files queue = None \<longrightarrow>
      load_last files queue = Inr JNull \<and>
      outcome (classify now names io queue current files) =
        outcome (classify now names io queue current (files(queue \<mapsto> Stored (JArr [])))) \<and>
      events (classify now names io queue current files) =
        events (classify now names io queue current (files(queue \<mapsto> Stored (JArr []))))) \<and>
   (files queue = Some Corrupt \<longrightarrow>
      classify now names io queue current files =
        \<lparr>outcome = Failed JSONDecodeError, cache_after = files, events = [Load queue]\<rparr>)"
proof (intro conjI impI)
  assume none: "files queue = None"
  then show l: "load_last files queue = Inr JNull"
    by (simp add: load_last_def)
  have l': "load_last (files(queue \<mapsto> Stored (JArr []))) queue = Inr (JArr [])"
    by (simp add: load_last_def)
  have body: "classify_body now names queue current files =
     classify_body now names queue current (files(queue \<mapsto> Stored (JArr [])))"
    using l l' by (rule classify_body_cache) (simp add: py_or_def)
  show "outcome (classify now names io queue current files) =
        outcome (classify now names io queue current (files(queue \<mapsto> Stored (JArr []))))"
    by (simp add: classify_def body save_current_def Let_def
        split: sum.splits prod.splits write_result.splits)
  show "events (classify now names io queue current files) =
        events (classify now names io queue current (files(queue \<mapsto> Stored (JArr []))))"
    by (simp add: classify_def body save_current_def Let_def
        split: sum.splits prod.splits write_result.splits)
next
  assume "files queue = Some Corrupt"
  then show "classify now names io queue current files =
        \<lparr>outcome = Failed JSONDecodeError, cache_after = files, events = [Load queue]\<rparr>"
    by (simp add: classify_def classify_body_def load_last_def)
qed

theorem cache_absent_or_unreadable_witness:
  "outcome (classify (\<lambda>k. Date 2025 1 11) Map.empty flat_disk (str ''Q'')
       (JArr [day_entry ''12.01.2025'' [outage ''10:00'' ''15:00'']]) Map.empty) =
   outcome (classify (\<lambda>k. Date 2025 1 11) Map.empty flat_disk (str ''Q'')
       (JArr [day_entry ''12.01.2025'' [outage ''10:00'' ''15:00'']])
       (Map.empty(str ''Q'' \<mapsto> Stored (JArr [])))) \<and>
   classify (\<lambda>k. Date 2025 1 11) Map.empty flat_disk (str ''Q'')
       (JArr [day_entry ''12.01.2025'' [outage ''10:00'' ''15:00'']])
       (Map.empty(str ''Q'' \<mapsto> Corrupt)) =
     \<lparr>outcome = Failed JSONDecodeError, cache_after = Map.empty(str ''Q'' \<mapsto> Corrupt),
      events = [Load (str ''Q'')]\<rparr>"
  using cache_absent_or_unreadable [of Map.empty "str ''Q''" "\<lambda>k. Date 2025 1 11" Map.empty
      flat_disk "JArr [day_entry ''12.01.2025'' [outage ''10:00'' ''15:00'']]"]
    cache_absent_or_unreadable [of "Map.empty(str ''Q'' \<mapsto> Corrupt)" "str ''Q''"
      "\<lambda>k. Date 2025 1 11" Map.empty flat_disk
      "JArr [day_entry ''12.01.2025'' [outage ''10:00'' ''15:00'']]"]
  by simp

text \<open>
  The claim as stated fails on an unreadable cache file: the run fails where the same run
  without a cache file reports a change.
\<close>

theorem cache_unreadable_counterexample:
  "outcome (classify (\<lambda>k. Date 2025 1 11) Map.empty flat_disk (str ''Q'')
       (JArr [day_entry ''12.01.2025'' [outage ''10:00'' ''15:00'']])
       (Map.empty(str ''Q'' \<mapsto> Corrupt))) = Failed JSONDecodeError \<and>
   events (classify (\<lambda>k. Date 2025 1 11) Map.empty flat_disk (str ''Q'')
       (JArr [day_entry ''12.01.2025'' [outage ''10:00'' ''15:00'']])
       (Map.empty(str ''Q'' \<mapsto> Corrupt))) = [Load (str ''Q'')] \<and>
   outcome (classify (\<lambda>k. Date 2025 1 11) Map.empty flat_disk (str ''Q'')
       (JArr [day_entry ''12.01.2025'' [outage ''10:00'' ''15:00'']]) Map.empty) = Changed \<and>
   events (classify (\<lambda>k. Date 2025 1 11) Map.empty flat_disk (str ''Q'')
       (JArr [day_entry ''12.01.2025'' [outage ''10:00'' ''15:00'']]) Map.empty) =
     [Load (str ''Q''),
      Telegram (ScheduleChanged (str ''Q'') None
        [Part (JStr (str ''12.01.2025'')) (JStr (str ''?''))
           (Outages [(JStr (str ''10:00''), JStr (str ''15:00''))])]),
      Save (str ''Q'') (JArr [day_entry ''12.01.2025'' [outage ''10:00'' ''15:00'']])]"
  by (simp add: input_defs run_defs strptime_def example_dates)

end
